theory Spec2Isabelle
  imports Complex_Main "HOL-Library.Product_Lexorder" "HOL-Library.Multiset"
begin

section \<open>Errors\<close>

text \<open>
  The exceptions the two classes of \<^verbatim>\<open>sklearn_questions.py\<close> can raise, as values.
  A function that may raise returns \<open>error + 'a\<close>, with \<open>Inl\<close> for the exception.
  \<open>NotFittedError\<close> is scikit-learn's, the others are Python's built-in ones
  (pandas' date parsing error is a \<open>ValueError\<close>).
\<close>

datatype error = NotFittedError | ValueError | AttributeError | IndexError | TypeError

section \<open>MonthlySplit: the data\<close>

text \<open>
  A pandas timestamp, as far as the splitter reads it: its year, its month and its
  position inside the month (\<open>tick\<close>: the day and the time of day, in nanoseconds).
  Timestamps are ordered chronologically, which is the lexicographic order of
  \<open>chron\<close>. \<open>to_period\<close> is \<^verbatim>\<open>.dt.to_period('M')\<close>: the calendar month of a
  timestamp, a pair of year and month.
\<close>

datatype timestamp = Timestamp (year: int) (month: nat) (tick: nat)

definition chron :: "timestamp \<Rightarrow> int \<times> nat \<times> nat" where
  "chron t = (year t, month t, tick t)"

type_synonym period = "int \<times> nat"

definition to_period :: "timestamp \<Rightarrow> period" where
  "to_period t = (year t, month t)"

text \<open>
  A value of a table, by what \<^verbatim>\<open>pd.to_datetime\<close> does with it:
  \<^item> \<open>Time t\<close> is a value that converts (a timestamp, or a date string or number standing
    for it), given as the timestamp \<open>t\<close> it converts to;
  \<^item> \<open>Missing\<close> is a value read as missing (\<^verbatim>\<open>None\<close>, NaN, the empty string): it
    converts to NaT and nothing is raised;
  \<^item> \<open>Flag b\<close> is a boolean, on which the conversion raises \<open>TypeError\<close>;
  \<^item> \<open>Other s\<close> is a string \<open>s\<close> that does not parse as a date, on which the conversion
    raises \<open>ValueError\<close>.

  A DataFrame has a row index (the row identifiers) and named columns; every column is
  as long as the index (\<open>wf_dataframe\<close>). A column is looked up by its name, and the
  names of a table are taken to be distinct; the row identifiers need not be.
\<close>

datatype cell = Time timestamp | Missing | Flag bool | Other string

record dataframe =
  index :: "cell list"
  columns :: "(string \<times> cell list) list"

definition wf_dataframe :: "dataframe \<Rightarrow> bool" where
  "wf_dataframe X = list_all (\<lambda>c. length (snd c) = length (index X)) (columns X)"

text \<open>
  \<^verbatim>\<open>pd.to_datetime\<close> on a sequence: the converted values, where \<open>None\<close> stands for
  NaT, or the exception of the first value that does not convert.
\<close>

fun to_datetime :: "cell list \<Rightarrow> error + timestamp option list" where
  "to_datetime [] = Inr []"
| "to_datetime (Time t # cs) =
     (case to_datetime cs of Inl e \<Rightarrow> Inl e | Inr vs \<Rightarrow> Inr (Some t # vs))"
| "to_datetime (Missing # cs) =
     (case to_datetime cs of Inl e \<Rightarrow> Inl e | Inr vs \<Rightarrow> Inr (None # vs))"
| "to_datetime (Flag b # cs) = Inl TypeError"
| "to_datetime (Other s # cs) = Inl ValueError"

text \<open>
  What \<^verbatim>\<open>pd.to_datetime\<close> returns depends on what it is given: a
  \<^verbatim>\<open>DatetimeIndex\<close> for the index of the table, a \<^verbatim>\<open>Series\<close> for a column.
  \<open>values_of\<close> lists the timestamps it holds, without the missing ones (\<open>dropna\<close>).
  Both methods of \<^verbatim>\<open>MonthlySplit\<close> start with the same lines (168-173 and
  190-195), modelled once as \<open>time_data\<close>: the first argument is \<^verbatim>\<open>self.time_col\<close>.
\<close>

datatype time_values = DatetimeIndex "timestamp option list" | Series "timestamp option list"

fun dropna :: "'a option list \<Rightarrow> 'a list" where
  "dropna [] = []"
| "dropna (None # vs) = dropna vs"
| "dropna (Some v # vs) = v # dropna vs"

fun values_of :: "time_values \<Rightarrow> timestamp list" where
  "values_of (DatetimeIndex vs) = dropna vs"
| "values_of (Series vs) = dropna vs"

definition time_data :: "string \<Rightarrow> dataframe \<Rightarrow> error + time_values" where
  "time_data time_col X =
     (if time_col = ''index''
      then (case to_datetime (index X) of
              Inl e \<Rightarrow> Inl e
            | Inr vs \<Rightarrow> Inr (DatetimeIndex vs))
      else (case map_of (columns X) time_col of
              None \<Rightarrow> Inl ValueError
            | Some col \<Rightarrow>
                (case to_datetime col of
                   Inl e \<Rightarrow> Inl e
                 | Inr vs \<Rightarrow> Inr (Series vs))))"

section \<open>MonthlySplit: the number of splits\<close>

text \<open>
  \<^verbatim>\<open>sort_values\<close> puts the timestamps in ascending order and the missing values last.
  \<^verbatim>\<open>min\<close> and \<^verbatim>\<open>max\<close> skip missing values. When no timestamp is left they return
  NaT, whose \<^verbatim>\<open>month\<close> and \<^verbatim>\<open>year\<close> are the float nan; the arithmetic then gives nan,
  and Python's \<^verbatim>\<open>max(nan, 0)\<close> is nan. The result of \<^verbatim>\<open>get_n_splits\<close> is therefore
  a Python number: an integer, or nan.
\<close>

definition na_last :: "timestamp option list \<Rightarrow> timestamp option list" where
  "na_last vs = map Some (sort_key chron (dropna vs)) @ filter (\<lambda>v. v = None) vs"

fun sort_values :: "time_values \<Rightarrow> time_values" where
  "sort_values (DatetimeIndex vs) = DatetimeIndex (na_last vs)"
| "sort_values (Series vs) = Series (na_last vs)"

fun ts_min :: "timestamp list \<Rightarrow> timestamp option" where
  "ts_min [] = None"
| "ts_min (t # ts) = Some (fold (\<lambda>u m. if chron u < chron m then u else m) ts t)"

fun ts_max :: "timestamp list \<Rightarrow> timestamp option" where
  "ts_max [] = None"
| "ts_max (t # ts) = Some (fold (\<lambda>u m. if chron m < chron u then u else m) ts t)"

datatype py_number = PyInt int | NaN

definition get_n_splits :: "string \<Rightarrow> dataframe \<Rightarrow> error + py_number" where
  "get_n_splits time_col X =
     (case time_data time_col X of
        Inl e \<Rightarrow> Inl e
      | Inr td \<Rightarrow>
          (let sorted_data = sort_values td in
           case (ts_min (values_of sorted_data), ts_max (values_of sorted_data)) of
             (Some first_date, Some last_date) \<Rightarrow>
               (let diff_month = int (month last_date) - int (month first_date);
                    diff_year = year last_date - year first_date;
                    total_months = diff_year * 12 + diff_month
                in Inr (PyInt (max total_months 0)))
           | _ \<Rightarrow> Inr NaN))"

section \<open>MonthlySplit: the splits\<close>

text \<open>
  \<open>sorted_positions ts\<close> are the positions of the timestamps \<open>ts\<close> in ascending order
  (\<^verbatim>\<open>np.argsort\<close>). pandas' default sort does not promise an order among equal
  timestamps; the model orders them stably, and the properties proved below speak of the
  rows of a month as a set or multiset, so they do not depend on that choice.

  \<^verbatim>\<open>Series.argsort\<close>, as pandas 2 has it (the pandas of 2024, when the repository was
  written): the timestamps that are present are sorted among themselves, their positions
  in that shorter sequence are written where the timestamps stand, and \<open>-1\<close> is written
  where a value is missing. Without missing values this is \<^verbatim>\<open>np.argsort\<close>. (pandas 3
  orders missing values last instead; the two agree on the tables evaluated below.)

  \<^verbatim>\<open>iloc\<close> takes rows by position, a negative position counting from the end (the
  positions that \<^verbatim>\<open>argsort\<close> returns lie in range for a well-formed table);
  \<^verbatim>\<open>unique\<close> keeps the first occurrence of every value in order of appearance, NaT
  being one value; comparing with \<^verbatim>\<open>==\<close> is false whenever a side is NaT; and indexing
  with a boolean mask keeps the entries whose mask is true.
\<close>

definition sorted_positions :: "timestamp list \<Rightarrow> nat list" where
  "sorted_positions ts = sort_key (\<lambda>i. chron (ts ! i)) [0..<length ts]"

fun place :: "'a option list \<Rightarrow> int list \<Rightarrow> int list" where
  "place [] order = []"
| "place (None # vs) order = - 1 # place vs order"
| "place (Some v # vs) order = (case order of [] \<Rightarrow> [] | k # ks \<Rightarrow> k # place vs ks)"

definition argsort :: "timestamp option list \<Rightarrow> int list" where
  "argsort vs = place vs (map int (sorted_positions (dropna vs)))"

definition iloc :: "'a list \<Rightarrow> int list \<Rightarrow> 'a list" where
  "iloc xs ps = map (\<lambda>i. xs ! (if i < 0 then nat (int (length xs) + i) else nat i)) ps"

fun unique :: "'a list \<Rightarrow> 'a list" where
  "unique [] = []"
| "unique (x # xs) = x # unique (removeAll x xs)"

fun same_period :: "period option \<Rightarrow> period option \<Rightarrow> bool" where
  "same_period (Some a) (Some b) = (a = b)"
| "same_period None b = False"
| "same_period (Some a) None = False"

definition mask_select :: "'a list \<Rightarrow> bool list \<Rightarrow> 'a list" where
  "mask_select xs bs = map fst (filter snd (zip xs bs))"

text \<open>
  \<^verbatim>\<open>split\<close> is a generator; the model returns the list of all the pairs it yields, or
  the exception its body raises (in Python, at the first \<^verbatim>\<open>next\<close>). The body takes
  \<^verbatim>\<open>time_data.iloc[sorted_indices]\<close> (line 200): a \<^verbatim>\<open>Series\<close> has \<^verbatim>\<open>iloc\<close>, a
  \<^verbatim>\<open>DatetimeIndex\<close> has not, so with the index as the time source the attribute
  lookup raises \<open>AttributeError\<close>; the two lines before it (198-199) sort the index and
  take the rows at valid positions, which raises nothing. The pairs hold row identifiers:
  the entries of \<^verbatim>\<open>X_sorted.index\<close> under the mask of a month.
\<close>

definition split_pairs ::
  "cell list \<Rightarrow> timestamp option list \<Rightarrow> (cell list \<times> cell list) list" where
  "split_pairs X_sorted_index time_sorted =
     (let months = map (map_option to_period) time_sorted;
          unique_months = unique months
      in map (\<lambda>i.
            (let train_mask = map (\<lambda>m. same_period m (unique_months ! i)) months;
                 test_mask = map (\<lambda>m. same_period m (unique_months ! (i + 1))) months;
                 train_indices = mask_select X_sorted_index train_mask;
                 test_indices = mask_select X_sorted_index test_mask
             in (train_indices, test_indices)))
           [0..<length unique_months - 1])"

definition split :: "string \<Rightarrow> dataframe \<Rightarrow> error + (cell list \<times> cell list) list" where
  "split time_col X =
     (case time_data time_col X of
        Inl e \<Rightarrow> Inl e
      | Inr (DatetimeIndex vs) \<Rightarrow> Inl AttributeError
      | Inr (Series vs) \<Rightarrow>
          (let sorted_indices = argsort vs;
               X_sorted_index = iloc (index X) sorted_indices;
               time_sorted = iloc vs sorted_indices
           in Inr (split_pairs X_sorted_index time_sorted)))"

section \<open>KNearestNeighbors: the data\<close>

text \<open>
  A label is what a numpy array of targets holds: an integer, a float or a string.
  Features are numbers; floating-point rounding, NaN and infinities are outside the
  model, so a feature is a real number and a matrix is a list of rows.

  An estimator instance is its attribute dictionary: \<^verbatim>\<open>hasattr\<close> asks whether a name
  is in the domain, an attribute read of a missing name raises \<open>AttributeError\<close>.
  \<open>init\<close> is \<^verbatim>\<open>__init__\<close>, which stores \<^verbatim>\<open>n_neighbors\<close> and nothing else.
\<close>

datatype label = IntL int | FloatL real | StrL string

type_synonym matrix = "real list list"

datatype pyval = PyNum int | Matrix matrix | Labels "label list"

type_synonym estimator = "string \<rightharpoonup> pyval"

definition init :: "int \<Rightarrow> estimator" where
  "init n_neighbors = [''n_neighbors'' \<mapsto> PyNum n_neighbors]"

definition getattr :: "estimator \<Rightarrow> string \<Rightarrow> error + pyval" where
  "getattr self name = (case self name of None \<Rightarrow> Inl AttributeError | Some v \<Rightarrow> Inr v)"

subsection \<open>The validation helpers of scikit-learn\<close>

text \<open>
  \<^verbatim>\<open>check_array\<close> accepts a two-dimensional numeric array with at least one sample and
  one feature: here, a non-empty list of non-empty rows of one length.
  \<^verbatim>\<open>check_X_y\<close> checks \<open>X\<close> the same way and that \<open>y\<close> has one label per row.
  \<^verbatim>\<open>check_is_fitted(self, attributes)\<close> raises \<open>NotFittedError\<close> unless the instance has
  all the listed attributes. \<^verbatim>\<open>check_classification_targets\<close> rejects continuous
  targets: floats that are not whole numbers.
\<close>

definition check_array :: "matrix \<Rightarrow> error + matrix" where
  "check_array X =
     (if X = [] then Inl ValueError
      else if hd X = [] then Inl ValueError
      else if list_all (\<lambda>row. length row = length (hd X)) X then Inr X
      else Inl ValueError)"

definition check_X_y :: "matrix \<Rightarrow> label list \<Rightarrow> error + matrix \<times> label list" where
  "check_X_y X y =
     (case check_array X of
        Inl e \<Rightarrow> Inl e
      | Inr X' \<Rightarrow> if length y = length X' then Inr (X', y) else Inl ValueError)"

definition check_is_fitted :: "estimator \<Rightarrow> string list \<Rightarrow> error + unit" where
  "check_is_fitted self attributes =
     (if list_all (\<lambda>a. self a \<noteq> None) attributes then Inr () else Inl NotFittedError)"

fun is_continuous :: "label \<Rightarrow> bool" where
  "is_continuous (FloatL x) = (x \<noteq> of_int \<lfloor>x\<rfloor>)"
| "is_continuous (IntL i) = False"
| "is_continuous (StrL s) = False"

definition check_classification_targets :: "label list \<Rightarrow> error + unit" where
  "check_classification_targets y = (if list_ex is_continuous y then Inl ValueError else Inr ())"

subsection \<open>The numpy, collections and Python helpers\<close>

text \<open>
  \<^verbatim>\<open>pairwise_distances\<close> checks both arrays and that they have the same number of
  features, and returns one row of Euclidean distances per row of \<open>X\<close>. The distances are
  only sorted, and sorting by the squared distance gives the same order, so the model keeps
  the squares, which stay computable. \<^verbatim>\<open>np.argsort\<close> is modelled as a stable sort of the
  positions. \<open>slice_to xs k\<close> is the slice \<^verbatim>\<open>xs[:k]\<close>, where a negative \<open>k\<close> counts from
  the end.
\<close>

definition sq_dist :: "real list \<Rightarrow> real list \<Rightarrow> real" where
  "sq_dist a b = sum_list (map (\<lambda>p. (fst p - snd p) ^ 2) (zip a b))"

definition pairwise_distances :: "matrix \<Rightarrow> matrix \<Rightarrow> error + real list list" where
  "pairwise_distances X Y =
     (case check_array X of
        Inl e \<Rightarrow> Inl e
      | Inr X' \<Rightarrow>
          (case check_array Y of
             Inl e \<Rightarrow> Inl e
           | Inr Y' \<Rightarrow>
               if length (hd X') = length (hd Y')
               then Inr (map (\<lambda>x. map (\<lambda>y. sq_dist x y) Y') X')
               else Inl ValueError))"

definition np_argsort :: "real list \<Rightarrow> nat list" where
  "np_argsort d = sort_key (\<lambda>i. d ! i) [0..<length d]"

definition slice_to :: "'a list \<Rightarrow> int \<Rightarrow> 'a list" where
  "slice_to xs k = (if 0 \<le> k then take (nat k) xs else take (length xs - nat (- k)) xs)"

text \<open>
  \<^verbatim>\<open>Counter(labels).most_common(1)\<close>: the empty list for no labels, otherwise the one
  pair of a most frequent label and its count, the first such label in order of first
  appearance.
\<close>

definition most_common1 :: "label list \<Rightarrow> (label \<times> nat) list" where
  "most_common1 ls =
     (case unique ls of
        [] \<Rightarrow> []
      | k # ks \<Rightarrow>
          [fold (\<lambda>a best. if snd best < snd a then a else best)
             (map (\<lambda>l. (l, count_list ls l)) ks) (k, count_list ls k)])"

text \<open>
  Python's \<^verbatim>\<open>int\<close>: the identity on an integer, truncation towards zero on a float,
  parsing on a string. The parser covers an optional sign followed by decimal digits;
  the other spellings Python accepts (surrounding blanks, underscores) are not modelled
  and count as unparsable.
\<close>

definition digit_of :: "char \<Rightarrow> nat option" where
  "digit_of c =
     (let n = (of_char c :: nat) in if 48 \<le> n \<and> n \<le> 57 then Some (n - 48) else None)"

fun digits_value :: "nat \<Rightarrow> string \<Rightarrow> nat option" where
  "digits_value acc [] = Some acc"
| "digits_value acc (c # cs) =
     (case digit_of c of None \<Rightarrow> None | Some d \<Rightarrow> digits_value (10 * acc + d) cs)"

definition int_of_string :: "string \<Rightarrow> int option" where
  "int_of_string s =
     (case s of
        [] \<Rightarrow> None
      | c # cs \<Rightarrow>
          if c = CHR ''-'' then (if cs = [] then None
                                 else map_option (\<lambda>n. - int n) (digits_value 0 cs))
          else if c = CHR ''+'' then (if cs = [] then None
                                      else map_option int (digits_value 0 cs))
          else map_option int (digits_value 0 s))"

fun py_int :: "label \<Rightarrow> error + int" where
  "py_int (IntL i) = Inr i"
| "py_int (FloatL x) = Inr (if 0 \<le> x then \<lfloor>x\<rfloor> else \<lceil>x\<rceil>)"
| "py_int (StrL s) = (case int_of_string s of None \<Rightarrow> Inl ValueError | Some i \<Rightarrow> Inr i)"

text \<open>
  \<^verbatim>\<open>accuracy_score(y, y_pred)\<close>: the fraction of positions where the label equals the
  prediction, for two vectors of one length. A prediction is a float; a string label
  equals none.
\<close>

fun label_eq :: "label \<Rightarrow> real \<Rightarrow> bool" where
  "label_eq (IntL i) v = (of_int i = v)"
| "label_eq (FloatL x) v = (x = v)"
| "label_eq (StrL s) v = False"

definition accuracy_score :: "label list \<Rightarrow> real list \<Rightarrow> error + real" where
  "accuracy_score y y_pred =
     (if length y = length y_pred
      then Inr (real (length (filter (\<lambda>p. label_eq (fst p) (snd p)) (zip y y_pred)))
                / real (length y))
      else Inl ValueError)"

section \<open>KNearestNeighbors: fit, predict and score\<close>

text \<open>
  \<^verbatim>\<open>fit\<close> stores the checked data under the names \<^verbatim>\<open>X_train_\<close> and \<^verbatim>\<open>y_train_\<close>
  (lines 87-90).
\<close>

definition fit :: "estimator \<Rightarrow> matrix \<Rightarrow> label list \<Rightarrow> error + estimator" where
  "fit self X y =
     (case check_X_y X y of
        Inl e \<Rightarrow> Inl e
      | Inr (X', y') \<Rightarrow> Inr (self(''X_train_'' \<mapsto> Matrix X', ''y_train_'' \<mapsto> Labels y')))"

text \<open>
  One round of the loop of \<^verbatim>\<open>predict\<close> (lines 113-119), for the row \<open>d\<close> of distances
  of one query: the \<^verbatim>\<open>n_neighbors\<close> nearest positions, their labels read from the
  attribute \<^verbatim>\<open>y_train\<close>, the most common one, and its \<^verbatim>\<open>int\<close> stored into the float
  array \<^verbatim>\<open>y_pred\<close>.
\<close>

definition predict_row :: "estimator \<Rightarrow> real list \<Rightarrow> error + real" where
  "predict_row self d =
     (case getattr self ''n_neighbors'' of
        Inl e \<Rightarrow> Inl e
      | Inr (PyNum k) \<Rightarrow>
          (let nearest_neighbors = slice_to (np_argsort d) k in
           case getattr self ''y_train'' of
             Inl e \<Rightarrow> Inl e
           | Inr (Labels y_train) \<Rightarrow>
               if list_all (\<lambda>i. i < length y_train) nearest_neighbors
               then (let k_nearest_labels = map (\<lambda>i. y_train ! i) nearest_neighbors in
                     case most_common1 k_nearest_labels of
                       [] \<Rightarrow> Inl IndexError
                     | c # cs \<Rightarrow>
                         (case py_int (fst c) of
                            Inl e \<Rightarrow> Inl e
                          | Inr v \<Rightarrow> Inr (of_int v)))
               else Inl IndexError
           | Inr other \<Rightarrow> Inl TypeError)
      | Inr other \<Rightarrow> Inl TypeError)"

fun predict_rows :: "estimator \<Rightarrow> real list list \<Rightarrow> error + real list" where
  "predict_rows self [] = Inr []"
| "predict_rows self (d # ds) =
     (case predict_row self d of
        Inl e \<Rightarrow> Inl e
      | Inr v \<Rightarrow>
          (case predict_rows self ds of
             Inl e \<Rightarrow> Inl e
           | Inr vs \<Rightarrow> Inr (v # vs)))"

text \<open>
  \<^verbatim>\<open>predict\<close> (lines 105-121) first asks \<^verbatim>\<open>check_is_fitted\<close> for the attributes
  \<^verbatim>\<open>X_train_\<close> and \<^verbatim>\<open>y_test_\<close>, then checks \<open>X\<close>, computes the distances to
  \<^verbatim>\<open>self.X_train_\<close> and runs the loop.
\<close>

definition predict :: "estimator \<Rightarrow> matrix \<Rightarrow> error + real list" where
  "predict self X =
     (case check_is_fitted self [''X_train_'', ''y_test_''] of
        Inl e \<Rightarrow> Inl e
      | Inr u \<Rightarrow>
          (case check_array X of
             Inl e \<Rightarrow> Inl e
           | Inr X' \<Rightarrow>
               (case getattr self ''X_train_'' of
                  Inl e \<Rightarrow> Inl e
                | Inr (Matrix X_train) \<Rightarrow>
                    (case pairwise_distances X' X_train of
                       Inl e \<Rightarrow> Inl e
                     | Inr distances \<Rightarrow> predict_rows self distances)
                | Inr other \<Rightarrow> Inl TypeError)))"

text \<open>\<^verbatim>\<open>score\<close> (lines 138-143) checks \<open>X\<close> and \<open>y\<close>, predicts, and returns the accuracy.\<close>

definition score :: "estimator \<Rightarrow> matrix \<Rightarrow> label list \<Rightarrow> error + real" where
  "score self X y =
     (case check_array X of
        Inl e \<Rightarrow> Inl e
      | Inr X' \<Rightarrow>
          (case check_classification_targets y of
             Inl e \<Rightarrow> Inl e
           | Inr u \<Rightarrow>
               (case predict self X' of
                  Inl e \<Rightarrow> Inl e
                | Inr y_pred \<Rightarrow> accuracy_score y y_pred)))"

section \<open>Notions used to state the properties\<close>

text \<open>
  \<open>months_present ts\<close> is the value of \<^verbatim>\<open>unique_months\<close> (line 203) when the time
  values of the table are the timestamps \<open>ts\<close>, none missing: the distinct months of the sorted time values, in order of
  appearance. \<open>rows_in_month idx ts m\<close> lists the row identifiers, in table order, of the
  rows whose time value lies in month \<open>m\<close>.
\<close>

definition months_present :: "timestamp list \<Rightarrow> period list" where
  "months_present ts = unique (map (\<lambda>i. to_period (ts ! i)) (sorted_positions ts))"

definition rows_in_month :: "cell list \<Rightarrow> timestamp list \<Rightarrow> period \<Rightarrow> cell list" where
  "rows_in_month idx ts m =
     map ((!) idx) (filter (\<lambda>j. to_period (ts ! j) = m) [0..<length ts])"

section \<open>Example data\<close>

text \<open>
  A table spanning the five months November 2020 to March 2021, not in chronological
  order, with two rows in November. The timestamps are both its index and its column
  \<^verbatim>\<open>date\<close>.
\<close>

definition nov_to_mar_times :: "timestamp list" where
  "nov_to_mar_times =
     [Timestamp 2021 1 7, Timestamp 2020 11 3, Timestamp 2021 3 1,
      Timestamp 2020 12 15, Timestamp 2021 2 20, Timestamp 2020 11 28]"

definition nov_to_mar :: dataframe where
  "nov_to_mar =
     \<lparr>index = map Time nov_to_mar_times, columns = [(''date'', map Time nov_to_mar_times)]\<rparr>"

definition two_months :: dataframe where
  "two_months =
     \<lparr>index = [Time (Timestamp 2020 11 5), Time (Timestamp 2020 12 9)],
      columns = [(''date'', [Time (Timestamp 2020 11 5), Time (Timestamp 2020 12 9)])]\<rparr>"

text \<open>Two rows that carry the same row identifier, one in November and one in December.\<close>

definition repeated_labels :: dataframe where
  "repeated_labels =
     \<lparr>index = [Other ''a'', Other ''a''],
      columns = [(''date'', [Time (Timestamp 2020 11 5), Time (Timestamp 2020 12 9)])]\<rparr>"

text \<open>
  A table whose column \<^verbatim>\<open>date\<close> holds a date and an empty string, and one whose
  column \<^verbatim>\<open>date\<close> holds booleans.
\<close>

definition blank_dates :: dataframe where
  "blank_dates =
     \<lparr>index = [Other ''a'', Other ''b''],
      columns = [(''date'', [Time (Timestamp 2020 11 5), Missing])]\<rparr>"

definition bool_dates :: dataframe where
  "bool_dates =
     \<lparr>index = [Other ''a'', Other ''b''],
      columns = [(''date'', [Flag True, Flag False])]\<rparr>"

text \<open>
  A table whose column \<^verbatim>\<open>date\<close> and whose index hold a string that does not parse as
  a date.
\<close>

definition bad_dates :: dataframe where
  "bad_dates =
     \<lparr>index = [Other ''a'', Other ''b''],
      columns = [(''date'', [Time (Timestamp 2020 11 5), Other ''yesterday''])]\<rparr>"

text \<open>
  Two training points on a line with the labels 0 and 1, and the instance that
  \<^verbatim>\<open>KNearestNeighbors(n_neighbors=1).fit(toy_X, toy_y)\<close> returns; the same with the
  float labels 0.5 and 1.5.
\<close>

definition toy_X :: matrix where
  "toy_X = [[0], [1]]"

definition toy_y :: "label list" where
  "toy_y = [IntL 0, IntL 1]"

definition toy_model :: estimator where
  "toy_model = (init 1)(''X_train_'' \<mapsto> Matrix toy_X, ''y_train_'' \<mapsto> Labels toy_y)"

definition half_y :: "label list" where
  "half_y = [FloatL (1 / 2), FloatL (3 / 2)]"

definition half_model :: estimator where
  "half_model = (init 1)(''X_train_'' \<mapsto> Matrix toy_X, ''y_train_'' \<mapsto> Labels half_y)"

section \<open>Resolving the time values\<close>

lemma to_datetime_error: "to_datetime cs = Inl e \<Longrightarrow> e = ValueError \<or> e = TypeError"
  by (induction cs rule: to_datetime.induct) (auto split: sum.splits)

lemma to_datetime_Other:
  "Other s \<in> set cs \<Longrightarrow> \<forall>b. Flag b \<notin> set cs \<Longrightarrow> to_datetime cs = Inl ValueError"
  by (induction cs rule: to_datetime.induct) (auto split: sum.splits)

lemma to_datetime_length: "to_datetime cs = Inr vs \<Longrightarrow> length vs = length cs"
  by (induction cs arbitrary: vs rule: to_datetime.induct) (auto split: sum.splits)

lemma to_datetime_map_Time: "to_datetime (map Time ts) = Inr (map Some ts)"
  by (induction ts) auto

lemma time_data_Series_length:
  assumes "time_data time_col X = Inr (Series vs)" and "wf_dataframe X"
  shows "length vs = length (index X)"
proof -
  from assms(1) obtain col where col: "map_of (columns X) time_col = Some col"
    and conv: "to_datetime col = Inr vs"
    by (auto simp: time_data_def split: if_splits option.splits sum.splits)
  from col have "(time_col, col) \<in> set (columns X)" by (rule map_of_SomeD)
  with assms(2) have "length col = length (index X)"
    by (auto simp: wf_dataframe_def list_all_iff)
  moreover from conv have "length vs = length col"
    by (rule to_datetime_length)
  ultimately show ?thesis by simp
qed

text \<open>
  With the index as the time source, \<^verbatim>\<open>split\<close> never yields a pair: it raises the
  exception of the conversion when the index does not convert, and \<open>AttributeError\<close>
  otherwise.
\<close>

lemma split_index_never_returns:
  "split ''index'' X = Inl ValueError \<or> split ''index'' X = Inl TypeError \<or>
   split ''index'' X = Inl AttributeError"
  by (auto simp: split_def time_data_def split: sum.splits dest: to_datetime_error)

section \<open>The earliest and the latest timestamp\<close>

lemma dropna_map_Some: "dropna (map Some xs) = xs"
  by (induction xs) auto

lemma dropna_append: "dropna (vs @ ws) = dropna vs @ dropna ws"
  by (induction vs rule: dropna.induct) auto

lemma dropna_only_None: "dropna (filter (\<lambda>v. v = None) vs) = []"
  by (induction vs rule: dropna.induct) auto

text \<open>Sorting keeps the timestamps that are present, in ascending order.\<close>

lemma values_of_sort_values: "values_of (sort_values td) = sort_key chron (values_of td)"
  by (cases td) (simp_all add: na_last_def dropna_append dropna_map_Some dropna_only_None)

lemma fold_min_mem: "fold (\<lambda>u m. if chron u < chron m then u else m) ts t \<in> set (t # ts)"
  by (induction ts arbitrary: t) auto

lemma fold_min_le:
  "chron (fold (\<lambda>u m. if chron u < chron m then u else m) ts t) \<le> chron t \<and>
   (\<forall>u \<in> set ts. chron (fold (\<lambda>u m. if chron u < chron m then u else m) ts t) \<le> chron u)"
proof (induction ts arbitrary: t)
  case Nil
  then show ?case by simp
next
  case (Cons a ts)
  show ?case using Cons.IH[of a] Cons.IH[of t] by (auto intro: order_trans)
qed

lemma fold_max_mem: "fold (\<lambda>u m. if chron m < chron u then u else m) ts t \<in> set (t # ts)"
  by (induction ts arbitrary: t) auto

lemma fold_max_ge:
  "chron t \<le> chron (fold (\<lambda>u m. if chron m < chron u then u else m) ts t) \<and>
   (\<forall>u \<in> set ts. chron u \<le> chron (fold (\<lambda>u m. if chron m < chron u then u else m) ts t))"
proof (induction ts arbitrary: t)
  case Nil
  then show ?case by simp
next
  case (Cons a ts)
  show ?case using Cons.IH[of a] Cons.IH[of t] by (auto intro: order_trans)
qed

lemma ts_min_Some:
  "ts \<noteq> [] \<Longrightarrow> \<exists>m. ts_min ts = Some m \<and> m \<in> set ts \<and> (\<forall>u \<in> set ts. chron m \<le> chron u)"
  using fold_min_mem fold_min_le by (cases ts) auto

lemma ts_max_Some:
  "ts \<noteq> [] \<Longrightarrow> \<exists>m. ts_max ts = Some m \<and> m \<in> set ts \<and> (\<forall>u \<in> set ts. chron u \<le> chron m)"
  using fold_max_mem fold_max_ge by (cases ts) auto

text \<open>
  C4. For a table whose time values resolve and that holds at least one timestamp,
  \<^verbatim>\<open>get_n_splits\<close> returns the difference in year * 12 + month between a latest and an
  earliest timestamp of the table, floored at zero, so never a negative number. The
  time source may be the index or a column.
\<close>

theorem get_n_splits_month_difference:
  assumes "time_data time_col X = Inr td" and "values_of td \<noteq> []"
  shows "\<exists>first_date last_date.
           first_date \<in> set (values_of td) \<and> last_date \<in> set (values_of td) \<and>
           (\<forall>t \<in> set (values_of td). chron first_date \<le> chron t \<and> chron t \<le> chron last_date) \<and>
           get_n_splits time_col X =
             Inr (PyInt (max ((year last_date * 12 + int (month last_date)) -
                              (year first_date * 12 + int (month first_date))) 0)) \<and>
           0 \<le> max ((year last_date * 12 + int (month last_date)) -
                     (year first_date * 12 + int (month first_date))) 0"
proof -
  let ?s = "values_of (sort_values td)"
  have set: "set ?s = set (values_of td)"
    by (simp add: values_of_sort_values)
  have ne: "?s \<noteq> []"
    using assms(2) set by (metis set_empty)
  obtain lo where lo: "ts_min ?s = Some lo" "lo \<in> set ?s" "\<forall>u \<in> set ?s. chron lo \<le> chron u"
    using ts_min_Some[OF ne] by blast
  obtain hi where hi: "ts_max ?s = Some hi" "hi \<in> set ?s" "\<forall>u \<in> set ?s. chron u \<le> chron hi"
    using ts_max_Some[OF ne] by blast
  have "(year hi - year lo) * 12 + (int (month hi) - int (month lo)) =
        (year hi * 12 + int (month hi)) - (year lo * 12 + int (month lo))"
    by (simp add: algebra_simps)
  then have "get_n_splits time_col X =
      Inr (PyInt (max ((year hi * 12 + int (month hi)) - (year lo * 12 + int (month lo))) 0))"
    using assms(1) lo(1) hi(1) by (simp add: get_n_splits_def Let_def)
  then show ?thesis using lo hi set by auto
qed

text \<open>
  The five-month table, read through its index: the hypotheses hold, and the result
  is 4.
\<close>

theorem get_n_splits_nov_to_mar:
  "time_data ''index'' nov_to_mar = Inr (DatetimeIndex (map Some nov_to_mar_times)) \<and>
   values_of (DatetimeIndex (map Some nov_to_mar_times)) \<noteq> [] \<and>
   (\<exists>first_date last_date.
      first_date \<in> set (values_of (DatetimeIndex (map Some nov_to_mar_times))) \<and>
      last_date \<in> set (values_of (DatetimeIndex (map Some nov_to_mar_times))) \<and>
      get_n_splits ''index'' nov_to_mar =
        Inr (PyInt (max ((year last_date * 12 + int (month last_date)) -
                         (year first_date * 12 + int (month first_date))) 0))) \<and>
   get_n_splits ''index'' nov_to_mar = Inr (PyInt 4)"
proof -
  have h1: "time_data ''index'' nov_to_mar = Inr (DatetimeIndex (map Some nov_to_mar_times))"
    by (simp add: time_data_def nov_to_mar_def to_datetime_map_Time)
  have h2: "values_of (DatetimeIndex (map Some nov_to_mar_times)) \<noteq> []"
    by (simp add: nov_to_mar_times_def)
  have four: "get_n_splits ''index'' nov_to_mar = Inr (PyInt 4)"
    by (simp add: get_n_splits_def time_data_def nov_to_mar_def nov_to_mar_times_def
        na_last_def chron_def)
  from get_n_splits_month_difference[OF h1 h2] have
    "\<exists>first_date last_date.
      first_date \<in> set (values_of (DatetimeIndex (map Some nov_to_mar_times))) \<and>
      last_date \<in> set (values_of (DatetimeIndex (map Some nov_to_mar_times))) \<and>
      get_n_splits ''index'' nov_to_mar =
        Inr (PyInt (max ((year last_date * 12 + int (month last_date)) -
                         (year first_date * 12 + int (month first_date))) 0))"
    by blast
  with h1 h2 four show ?thesis by blast
qed

text \<open>
  C8. When \<^verbatim>\<open>time_col\<close> names a column (it is not the sentinel \<^verbatim>\<open>'index'\<close>) and the
  table has no column of that name, \<^verbatim>\<open>get_n_splits\<close> and \<^verbatim>\<open>split\<close> both raise
  \<open>ValueError\<close>.
\<close>

theorem missing_column_value_error:
  assumes "time_col \<noteq> ''index''" and "time_col \<notin> fst ` set (columns X)"
  shows "get_n_splits time_col X = Inl ValueError \<and> split time_col X = Inl ValueError"
proof -
  have "map_of (columns X) time_col = None"
    using assms(2) by (simp add: map_of_eq_None_iff)
  then have "time_data time_col X = Inl ValueError"
    using assms(1) by (simp add: time_data_def)
  then show ?thesis by (simp add: get_n_splits_def split_def)
qed

theorem missing_column_nov_to_mar:
  "''day'' \<noteq> ''index'' \<and> ''day'' \<notin> fst ` set (columns nov_to_mar) \<and>
   get_n_splits ''day'' nov_to_mar = Inl ValueError \<and> split ''day'' nov_to_mar = Inl ValueError"
proof -
  have h1: "''day'' \<noteq> ''index''" by simp
  have h2: "''day'' \<notin> fst ` set (columns nov_to_mar)" by (simp add: nov_to_mar_def)
  show ?thesis using h1 h2 missing_column_value_error[OF h1 h2] by simp
qed

text \<open>
  C9 (the code differs). A column that holds a date and an empty string: the conversion
  turns the empty string into NaT and raises nothing, \<^verbatim>\<open>get_n_splits\<close> returns 0 and
  \<^verbatim>\<open>split\<close> yields one pair, of the dated row and no test row.
\<close>

theorem blank_dates_no_error:
  "get_n_splits ''date'' blank_dates = Inr (PyInt 0) \<and>
   split ''date'' blank_dates = Inr [([Other ''a''], [])]"
  by (simp add: get_n_splits_def split_def blank_dates_def time_data_def na_last_def Let_def
      argsort_def sorted_positions_def iloc_def split_pairs_def to_period_def mask_select_def)

text \<open>A column of booleans: both methods raise \<open>TypeError\<close>, not \<open>ValueError\<close>.\<close>

lemma bool_dates_type_error:
  "get_n_splits ''date'' bool_dates = Inl TypeError \<and> split ''date'' bool_dates = Inl TypeError"
  by (simp add: get_n_splits_def split_def bool_dates_def time_data_def)

text \<open>
  What does hold: when the designated time source (the index for the sentinel, the named
  column otherwise) holds no boolean and holds a string that does not parse as a date,
  \<^verbatim>\<open>get_n_splits\<close> and \<^verbatim>\<open>split\<close> both raise \<open>ValueError\<close>.
\<close>

lemma unparsable_values_value_error:
  assumes "(if time_col = ''index'' then Some (index X) else map_of (columns X) time_col) = Some src"
    and "Other s \<in> set src" and "\<forall>b. Flag b \<notin> set src"
  shows "get_n_splits time_col X = Inl ValueError \<and> split time_col X = Inl ValueError"
proof -
  have "to_datetime src = Inl ValueError"
    using assms(2,3) by (rule to_datetime_Other)
  then have "time_data time_col X = Inl ValueError"
    using assms(1) by (auto simp: time_data_def split: if_splits)
  then show ?thesis by (simp add: get_n_splits_def split_def)
qed

lemma unparsable_values_bad_dates:
  "get_n_splits ''date'' bad_dates = Inl ValueError \<and> split ''date'' bad_dates = Inl ValueError \<and>
   get_n_splits ''index'' bad_dates = Inl ValueError \<and> split ''index'' bad_dates = Inl ValueError"
  by (simp add: get_n_splits_def split_def bad_dates_def time_data_def)

section \<open>The months of a table and the rows of a month\<close>

lemma mask_select_eq:
  "mask_select (map f p) (map (\<lambda>i. g i = u) p) = map f (filter (\<lambda>i. g i = u) p)"
  by (induction p) (simp_all add: mask_select_def)

lemma unique_map_Some: "unique (map Some xs) = map Some (unique xs)"
  by (induction xs rule: unique.induct) (simp_all add: map_removeAll_inj[symmetric])

lemma place_no_missing: "length order = length ts \<Longrightarrow> place (map Some ts) order = order"
proof (induction ts arbitrary: order)
  case Nil
  then show ?case by simp
next
  case (Cons t ts)
  then show ?case by (cases order) simp_all
qed

text \<open>Without missing values, \<^verbatim>\<open>Series.argsort\<close> is the plain sort of the positions.\<close>

lemma argsort_no_missing: "argsort (map Some ts) = map int (sorted_positions ts)"
  by (simp add: argsort_def dropna_map_Some place_no_missing sorted_positions_def)

lemma iloc_positions: "iloc xs (map int p) = map ((!) xs) p"
  by (simp add: iloc_def)

lemma set_unique: "set (unique xs) = set xs"
  by (induction xs rule: unique.induct) auto

lemma distinct_unique: "distinct (unique xs)"
  by (induction xs rule: unique.induct) (auto simp: set_unique)

lemma sorted_unique: "sorted xs \<Longrightarrow> sorted (unique xs)"
proof (induction xs rule: unique.induct)
  case 1
  then show ?case by simp
next
  case (2 x xs)
  have "sorted (removeAll x xs)"
    using 2(2) by (simp add: removeAll_filter_not_eq sorted_wrt_filter)
  with 2 show ?case by (auto simp: set_unique)
qed

lemma to_period_mono: "chron a \<le> chron b \<Longrightarrow> to_period a \<le> to_period b"
  by (auto simp: chron_def to_period_def less_eq_prod_def less_prod_def)

lemma set_sorted_positions: "set (sorted_positions ts) = {0..<length ts}"
  by (simp add: sorted_positions_def)

lemma mset_sorted_positions: "mset (sorted_positions ts) = mset [0..<length ts]"
  by (simp add: sorted_positions_def)

lemma sorted_chron_positions: "sorted (map (\<lambda>i. chron (ts ! i)) (sorted_positions ts))"
  by (simp add: sorted_positions_def sorted_sort_key)

lemma sorted_months_positions: "sorted (map (\<lambda>i. to_period (ts ! i)) (sorted_positions ts))"
proof -
  have "sorted (map to_period (map (\<lambda>i. ts ! i) (sorted_positions ts)))"
    using sorted_chron_positions[of ts]
    by (auto simp: sorted_map intro: sorted_wrt_mono_rel[rotated] to_period_mono)
  then show ?thesis by (simp add: comp_def)
qed

lemma set_months_present: "set (months_present ts) = to_period ` set ts"
proof -
  have "set (months_present ts) = (\<lambda>i. to_period (ts ! i)) ` {0..<length ts}"
    by (simp add: months_present_def set_unique set_sorted_positions)
  also have "\<dots> = set (map (\<lambda>i. to_period (ts ! i)) [0..<length ts])"
    by simp
  also have "map (\<lambda>i. to_period (ts ! i)) [0..<length ts] = map to_period ts"
    by (rule nth_equalityI) simp_all
  finally show ?thesis by simp
qed

lemma distinct_months_present: "distinct (months_present ts)"
  by (simp add: months_present_def distinct_unique)

lemma sorted_months_present: "sorted (months_present ts)"
  by (simp add: months_present_def sorted_unique sorted_months_positions)

text \<open>The months of the table in chronological order, each once.\<close>

lemma months_present_eq: "months_present ts = sorted_list_of_set (to_period ` set ts)"
  by (metis sorted_months_present distinct_months_present set_months_present
      sorted_list_of_set.idem_if_sorted_distinct)

lemma months_present_index:
  assumes "j < length ts"
  shows "\<exists>k < length (months_present ts). months_present ts ! k = to_period (ts ! j)"
proof -
  have "to_period (ts ! j) \<in> set (months_present ts)"
    using assms by (simp add: set_months_present)
  then show ?thesis by (auto simp: in_set_conv_nth)
qed

lemma months_present_strict:
  assumes "k < length (months_present ts)" and "k' < length (months_present ts)"
  shows "months_present ts ! k < months_present ts ! k' \<longleftrightarrow> k < k'"
proof -
  have "sorted_wrt (<) (months_present ts)"
    using sorted_months_present distinct_months_present by (simp add: strict_sorted_iff)
  then show ?thesis using assms
    by (metis sorted_wrt_nth_less linorder_neqE_nat order_less_asym order_less_irrefl)
qed

section \<open>What split yields for a time column\<close>

lemma split_pairs_no_missing:
  "split_pairs (map ((!) idx) (sorted_positions ts)) (map (\<lambda>i. Some (ts ! i)) (sorted_positions ts)) =
     map (\<lambda>i. (map ((!) idx) (filter (\<lambda>j. to_period (ts ! j) = months_present ts ! i) (sorted_positions ts)),
               map ((!) idx) (filter (\<lambda>j. to_period (ts ! j) = months_present ts ! (i + 1)) (sorted_positions ts))))
         [0..<length (months_present ts) - 1]"
proof -
  let ?p = "sorted_positions ts"
  let ?g = "\<lambda>i. to_period (ts ! i)"
  have months: "map (map_option to_period) (map (\<lambda>i. Some (ts ! i)) ?p) = map (\<lambda>i. Some (?g i)) ?p"
    by simp
  have "map (\<lambda>i. Some (?g i)) ?p = map Some (map ?g ?p)"
    by simp
  then have um: "unique (map (\<lambda>i. Some (?g i)) ?p) = map Some (months_present ts)"
    by (simp only: unique_map_Some months_present_def)
  show ?thesis
    unfolding split_pairs_def Let_def months um
    by (rule map_cong) (simp_all add: mask_select_eq comp_def)
qed

lemma split_column:
  assumes "time_data time_col X = Inr (Series (map Some ts))"
  shows "split time_col X =
     Inr (map (\<lambda>i. (map ((!) (index X)) (filter (\<lambda>j. to_period (ts ! j) = months_present ts ! i) (sorted_positions ts)),
               map ((!) (index X)) (filter (\<lambda>j. to_period (ts ! j) = months_present ts ! (i + 1)) (sorted_positions ts))))
         [0..<length (months_present ts) - 1])"
proof -
  have rows: "map ((!) (map Some ts)) (sorted_positions ts) = map (\<lambda>i. Some (ts ! i)) (sorted_positions ts)"
    by (simp add: set_sorted_positions)
  have "split time_col X =
      Inr (split_pairs (map ((!) (index X)) (sorted_positions ts))
             (map ((!) (map Some ts)) (sorted_positions ts)))"
    using assms by (simp add: split_def Let_def argsort_no_missing iloc_positions)
  then show ?thesis
    by (simp only: rows split_pairs_no_missing)
qed

text \<open>
  With a column as the time source, \<^verbatim>\<open>split\<close> yields one pair for every two
  chronologically consecutive months of the table: the row identifiers of the first month
  and those of the second.
\<close>

lemma split_column_consecutive_months:
  assumes "time_data time_col X = Inr (Series (map Some ts))"
  shows "\<exists>ps. split time_col X = Inr ps \<and>
           length ps = length (sorted_list_of_set (to_period ` set ts)) - 1 \<and>
           (\<forall>i < length ps.
              mset (fst (ps ! i)) =
                mset (rows_in_month (index X) ts (sorted_list_of_set (to_period ` set ts) ! i)) \<and>
              mset (snd (ps ! i)) =
                mset (rows_in_month (index X) ts (sorted_list_of_set (to_period ` set ts) ! (i + 1))))"
proof -
  have rows: "mset (map ((!) idx) (filter P (sorted_positions ts))) = mset (map ((!) idx) (filter P [0..<length ts]))"
    for idx :: "cell list" and P
    by (simp add: mset_sorted_positions)
  show ?thesis
    unfolding split_column[OF assms] rows_in_month_def months_present_eq[symmetric]
    by (simp add: rows del: mset_map mset_filter)
qed

lemma split_nov_to_mar_by_column:
  "split ''date'' nov_to_mar =
     Inr [([Time (Timestamp 2020 11 3), Time (Timestamp 2020 11 28)], [Time (Timestamp 2020 12 15)]),
          ([Time (Timestamp 2020 12 15)], [Time (Timestamp 2021 1 7)]),
          ([Time (Timestamp 2021 1 7)], [Time (Timestamp 2021 2 20)]),
          ([Time (Timestamp 2021 2 20)], [Time (Timestamp 2021 3 1)])]"
  by (simp add: split_def nov_to_mar_def nov_to_mar_times_def time_data_def Let_def argsort_def
      sorted_positions_def iloc_def chron_def split_pairs_def to_period_def mask_select_def
      upt_rec[of _ "numeral _"] upt_rec[of 0])

lemma label_in_month_rows:
  assumes "distinct idx" and "length ts = length idx" and "j < length ts"
  shows "idx ! j \<in> set (map ((!) idx) (filter (\<lambda>j. to_period (ts ! j) = m) (sorted_positions ts)))
         \<longleftrightarrow> to_period (ts ! j) = m"
proof
  assume "idx ! j \<in> set (map ((!) idx) (filter (\<lambda>j. to_period (ts ! j) = m) (sorted_positions ts)))"
  then obtain i where i: "i < length ts" "to_period (ts ! i) = m" "idx ! i = idx ! j"
    by (auto simp: set_sorted_positions)
  with assms have "i = j" by (simp add: nth_eq_iff_index_eq)
  with i show "to_period (ts ! j) = m" by simp
next
  assume "to_period (ts ! j) = m"
  with assms(3) show "idx ! j \<in> set (map ((!) idx) (filter (\<lambda>j. to_period (ts ! j) = m) (sorted_positions ts)))"
    by (auto simp: set_sorted_positions)
qed

text \<open>
  C2 (the code differs). On a table whose index holds timestamps, \<^verbatim>\<open>split\<close> with
  the sentinel \<^verbatim>\<open>'index'\<close> raises \<open>AttributeError\<close>, while the same timestamps read
  from a column give the pair of November and December.
\<close>

theorem split_index_attribute_error:
  "split ''index'' two_months = Inl AttributeError \<and>
   split ''date'' two_months = Inr [([Time (Timestamp 2020 11 5)], [Time (Timestamp 2020 12 9)])]"
  by (simp add: split_def two_months_def time_data_def Let_def argsort_def
      sorted_positions_def iloc_def chron_def split_pairs_def to_period_def mask_select_def)

text \<open>
  C3 (the code differs). The table spanning the five months November to March, with
  the timestamps as its index: \<^verbatim>\<open>split\<close> raises \<open>AttributeError\<close> instead of yielding
  four pairs. Read from a column the four pairs are yielded
  (\<open>split_nov_to_mar_by_column\<close>, and \<open>split_column_consecutive_months\<close> for every table).
\<close>

theorem split_nov_to_mar_index_fails:
  "split ''index'' nov_to_mar = Inl AttributeError"
  by (simp add: split_def nov_to_mar_def nov_to_mar_times_def time_data_def)

text \<open>
  C7, as stated, fails when two rows carry the same row identifier: the train and the
  test identifiers of the yielded pair are then both that identifier.
\<close>

theorem split_repeated_labels_overlap:
  "split ''date'' repeated_labels = Inr [([Other ''a''], [Other ''a''])]"
  by (simp add: split_def repeated_labels_def time_data_def Let_def argsort_def
      sorted_positions_def iloc_def chron_def split_pairs_def to_period_def mask_select_def)

text \<open>
  C7, amended. For a well-formed table with pairwise distinct row identifiers whose time
  source is a column of values that all convert to timestamps \<open>ts\<close>, \<^verbatim>\<open>split\<close> returns pairs such that: the
  train and the test identifiers of every pair are disjoint; and for every row \<open>j\<close> whose
  month is neither the earliest nor the latest of the table (a row \<open>a\<close> lies in an
  earlier month and a row \<open>b\<close> in a later one), there is a pair \<open>k\<close>, not the first, such
  that the row is a train row of pair \<open>k\<close> and of no other pair, and a test row of the
  pair just before \<open>k\<close> and of no other pair.
\<close>

theorem split_column_partition:
  assumes td: "time_data time_col X = Inr (Series (map Some ts))"
    and wf: "wf_dataframe X"
    and dist: "distinct (index X)"
  shows "\<exists>ps. split time_col X = Inr ps \<and>
           (\<forall>i < length ps. set (fst (ps ! i)) \<inter> set (snd (ps ! i)) = {}) \<and>
           (\<forall>j a b. j < length ts \<and> a < length ts \<and> b < length ts \<and>
                to_period (ts ! a) < to_period (ts ! j) \<and> to_period (ts ! j) < to_period (ts ! b) \<longrightarrow>
              (\<exists>k. 0 < k \<and> k < length ps \<and>
                 (\<forall>i < length ps. index X ! j \<in> set (fst (ps ! i)) \<longleftrightarrow> i = k) \<and>
                 (\<forall>i < length ps. index X ! j \<in> set (snd (ps ! i)) \<longleftrightarrow> i + 1 = k)))"
proof -
  let ?um = "months_present ts"
  let ?rows = "\<lambda>m. map ((!) (index X)) (filter (\<lambda>j. to_period (ts ! j) = m) (sorted_positions ts))"
  let ?ps = "map (\<lambda>i. (?rows (?um ! i), ?rows (?um ! (i + 1)))) [0..<length ?um - 1]"
  have len: "length ts = length (index X)"
    using time_data_Series_length[OF td wf] by simp
  have split: "split time_col X = Inr ?ps"
    using td by (rule split_column)
  have train: "index X ! j \<in> set (fst (?ps ! i)) \<longleftrightarrow> to_period (ts ! j) = ?um ! i"
    if "i < length ?ps" "j < length ts" for i j
    using that label_in_month_rows[OF dist len] by simp
  have test: "index X ! j \<in> set (snd (?ps ! i)) \<longleftrightarrow> to_period (ts ! j) = ?um ! (i + 1)"
    if "i < length ?ps" "j < length ts" for i j
    using that label_in_month_rows[OF dist len] by simp
  have disjoint: "set (fst (?ps ! i)) \<inter> set (snd (?ps ! i)) = {}" if i: "i < length ?ps" for i
  proof (rule ccontr)
    assume "set (fst (?ps ! i)) \<inter> set (snd (?ps ! i)) \<noteq> {}"
    then obtain l where l: "l \<in> set (fst (?ps ! i))" "l \<in> set (snd (?ps ! i))" by blast
    from l(1) i obtain j where j: "j < length ts" "l = index X ! j"
      by (auto simp: set_sorted_positions)
    from l j i have "to_period (ts ! j) = ?um ! i" "to_period (ts ! j) = ?um ! (i + 1)"
      using train[OF i j(1)] test[OF i j(1)] by simp_all
    then have "?um ! i = ?um ! (i + 1)" by simp
    moreover have "i < length ?um" "i + 1 < length ?um" using i by simp_all
    ultimately show False
      using distinct_months_present[of ts] by (simp add: nth_eq_iff_index_eq)
  qed
  have inner: "\<exists>k. 0 < k \<and> k < length ?ps \<and>
                 (\<forall>i < length ?ps. index X ! j \<in> set (fst (?ps ! i)) \<longleftrightarrow> i = k) \<and>
                 (\<forall>i < length ?ps. index X ! j \<in> set (snd (?ps ! i)) \<longleftrightarrow> i + 1 = k)"
    if j: "j < length ts" and a: "a < length ts" and b: "b < length ts"
      and lo: "to_period (ts ! a) < to_period (ts ! j)" and hi: "to_period (ts ! j) < to_period (ts ! b)"
    for j a b
  proof -
    obtain k where k: "k < length ?um" "?um ! k = to_period (ts ! j)"
      using months_present_index[OF j] by blast
    obtain ka where ka: "ka < length ?um" "?um ! ka = to_period (ts ! a)"
      using months_present_index[OF a] by blast
    obtain kb where kb: "kb < length ?um" "?um ! kb = to_period (ts ! b)"
      using months_present_index[OF b] by blast
    have "ka < k" using lo k ka months_present_strict[of ka ts k] by simp
    moreover have "k < kb" using hi k kb months_present_strict[of k ts kb] by simp
    ultimately have k0: "0 < k" and k1: "k < length ?ps" using kb(1) by simp_all
    have eq: "to_period (ts ! j) = ?um ! i \<longleftrightarrow> i = k" if "i < length ?um" for i
      using that k distinct_months_present[of ts] by (auto simp: nth_eq_iff_index_eq)
    have "index X ! j \<in> set (fst (?ps ! i)) \<longleftrightarrow> i = k" if i: "i < length ?ps" for i
      using train[OF i j] eq[of i] i by simp
    moreover have "index X ! j \<in> set (snd (?ps ! i)) \<longleftrightarrow> i + 1 = k" if i: "i < length ?ps" for i
      using test[OF i j] eq[of "i + 1"] i by simp
    ultimately show ?thesis using k0 k1 by blast
  qed
  show ?thesis
    using split disjoint inner by blast
qed

text \<open>
  The five-month table read from its column \<^verbatim>\<open>date\<close> satisfies the hypotheses, and
  the conclusion holds of it. Its row 3 (December) has row 1 (November) before it and
  row 0 (January) after it, so the second part speaks of a row that exists.
\<close>

theorem split_column_partition_nov_to_mar:
  "time_data ''date'' nov_to_mar = Inr (Series (map Some nov_to_mar_times)) \<and>
   wf_dataframe nov_to_mar \<and>
   distinct (index nov_to_mar) \<and>
   to_period (nov_to_mar_times ! 1) < to_period (nov_to_mar_times ! 3) \<and>
   to_period (nov_to_mar_times ! 3) < to_period (nov_to_mar_times ! 0) \<and>
   (\<exists>ps. split ''date'' nov_to_mar = Inr ps \<and>
      (\<forall>i < length ps. set (fst (ps ! i)) \<inter> set (snd (ps ! i)) = {}) \<and>
      (\<forall>j a b. j < length nov_to_mar_times \<and> a < length nov_to_mar_times \<and>
           b < length nov_to_mar_times \<and>
           to_period (nov_to_mar_times ! a) < to_period (nov_to_mar_times ! j) \<and>
           to_period (nov_to_mar_times ! j) < to_period (nov_to_mar_times ! b) \<longrightarrow>
         (\<exists>k. 0 < k \<and> k < length ps \<and>
            (\<forall>i < length ps. index nov_to_mar ! j \<in> set (fst (ps ! i)) \<longleftrightarrow> i = k) \<and>
            (\<forall>i < length ps. index nov_to_mar ! j \<in> set (snd (ps ! i)) \<longleftrightarrow> i + 1 = k))))"
proof -
  have h1: "time_data ''date'' nov_to_mar = Inr (Series (map Some nov_to_mar_times))"
    by (simp add: time_data_def nov_to_mar_def to_datetime_map_Time)
  have h2: "wf_dataframe nov_to_mar"
    by (simp add: wf_dataframe_def nov_to_mar_def)
  have h3: "distinct (index nov_to_mar)"
    by (simp add: nov_to_mar_def nov_to_mar_times_def)
  have h4: "to_period (nov_to_mar_times ! 1) < to_period (nov_to_mar_times ! 3)"
    by (simp add: nov_to_mar_times_def to_period_def)
  have h5: "to_period (nov_to_mar_times ! 3) < to_period (nov_to_mar_times ! 0)"
    by (simp add: nov_to_mar_times_def to_period_def)
  show ?thesis
    by (intro conjI h1 h2 h3 h4 h5 split_column_partition[OF h1 h2 h3])
qed

section \<open>The classifier before and after fit\<close>

lemma fit_attributes:
  assumes "fit self X y = Inr est"
  shows "est = self(''X_train_'' \<mapsto> Matrix X, ''y_train_'' \<mapsto> Labels y)"
  using assms
  by (auto simp: fit_def check_X_y_def check_array_def split: sum.splits if_splits)

lemma predict_needs_y_test: "self ''y_test_'' = None \<Longrightarrow> predict self X = Inl NotFittedError"
  by (simp add: predict_def check_is_fitted_def)

text \<open>
  \<^verbatim>\<open>fit\<close> sets \<^verbatim>\<open>X_train_\<close> and \<^verbatim>\<open>y_train_\<close>, \<^verbatim>\<open>predict\<close> asks for \<^verbatim>\<open>X_train_\<close> and
  \<^verbatim>\<open>y_test_\<close>: on an instance that \<^verbatim>\<open>fit\<close> returned, \<^verbatim>\<open>predict\<close> raises
  \<open>NotFittedError\<close> whatever the query, and \<^verbatim>\<open>score\<close> raises as well.
\<close>

lemma predict_after_fit:
  assumes "fit (init k) X y = Inr est"
  shows "predict est Xq = Inl NotFittedError"
proof -
  have "est ''y_test_'' = None"
    using fit_attributes[OF assms] by (simp add: init_def)
  then show ?thesis by (rule predict_needs_y_test)
qed

lemma score_after_fit:
  assumes "fit (init k) X y = Inr est"
  shows "score est Xq yq = Inl NotFittedError \<or> score est Xq yq = Inl ValueError"
  using predict_after_fit[OF assms]
  by (auto simp: score_def check_array_def check_classification_targets_def
      split: sum.splits if_splits)

text \<open>
  C1 (the code differs). A classifier with one neighbour, fit on two points: \<^verbatim>\<open>predict\<close>
  on a query equal to the first training point raises \<open>NotFittedError\<close> instead of
  returning its label 0.
\<close>

theorem predict_after_fit_not_fitted:
  "fit (init 1) toy_X toy_y = Inr toy_model \<and> predict toy_model [[0]] = Inl NotFittedError"
  by (simp add: fit_def check_X_y_def check_array_def toy_X_def toy_y_def toy_model_def
      predict_def check_is_fitted_def init_def)

text \<open>
  C6 (the code differs). The same fitted classifier, scored on its own training data:
  \<^verbatim>\<open>score\<close> raises \<open>NotFittedError\<close> instead of returning a fraction between 0 and 1.
\<close>

theorem score_after_fit_not_fitted:
  "fit (init 1) toy_X toy_y = Inr toy_model \<and> score toy_model toy_X toy_y = Inl NotFittedError"
  by (simp add: fit_def check_X_y_def check_array_def toy_X_def toy_y_def toy_model_def
      predict_def check_is_fitted_def init_def score_def check_classification_targets_def)

text \<open>
  C10 (the code differs). A classifier fit on the float labels 0.5 and 1.5: \<^verbatim>\<open>predict\<close>
  raises \<open>NotFittedError\<close>, so no vector of truncated labels is returned.
\<close>

theorem predict_float_labels_not_fitted:
  "fit (init 1) toy_X half_y = Inr half_model \<and> predict half_model [[0]] = Inl NotFittedError"
  by (simp add: fit_def check_X_y_def check_array_def toy_X_def half_y_def half_model_def
      predict_def check_is_fitted_def init_def)

text \<open>
  C5. On an instance on which \<^verbatim>\<open>fit\<close> has not been called (what \<^verbatim>\<open>__init__\<close>
  returns), \<^verbatim>\<open>predict\<close> raises \<open>NotFittedError\<close>, and so does \<^verbatim>\<open>score\<close>, for every
  well-formed input: an \<open>X\<close> that \<^verbatim>\<open>check_array\<close> accepts and a \<open>y\<close> that
  \<^verbatim>\<open>check_classification_targets\<close> accepts.
\<close>

theorem unfitted_predict_score_not_fitted:
  assumes "check_array X = Inr X'" and "check_classification_targets y = Inr u"
  shows "predict (init k) X = Inl NotFittedError \<and> score (init k) X y = Inl NotFittedError"
proof -
  have p: "predict (init k) Z = Inl NotFittedError" for Z
    by (rule predict_needs_y_test) (simp add: init_def)
  show ?thesis using assms p by (simp add: score_def)
qed

theorem unfitted_toy_not_fitted:
  "check_array toy_X = Inr toy_X \<and> check_classification_targets toy_y = Inr () \<and>
   predict (init 1) toy_X = Inl NotFittedError \<and> score (init 1) toy_X toy_y = Inl NotFittedError"
proof -
  have h1: "check_array toy_X = Inr toy_X" by (simp add: check_array_def toy_X_def)
  have h2: "check_classification_targets toy_y = Inr ()"
    by (simp add: check_classification_targets_def toy_y_def)
  show ?thesis using h1 h2 unfitted_predict_score_not_fitted[OF h1 h2, of 1] by simp
qed


text \<open>
  The loop of \<^verbatim>\<open>predict\<close> is reached only on an instance that also has the attributes
  \<^verbatim>\<open>y_test_\<close> and \<^verbatim>\<open>y_train\<close>, which no method of the class sets. With both set by
  hand, the nearest label is found and stored through \<^verbatim>\<open>int\<close>: 0.5 becomes 0 and 1.5
  becomes 1.
\<close>

lemma predict_hand_set_attributes_truncates:
  "predict (half_model(''y_test_'' \<mapsto> Labels half_y, ''y_train'' \<mapsto> Labels half_y)) [[0], [1]]
     = Inr [0, 1]"
  by (simp add: predict_def check_is_fitted_def check_array_def getattr_def half_model_def
      init_def toy_X_def pairwise_distances_def sq_dist_def predict_row_def np_argsort_def
      slice_to_def half_y_def most_common1_def)

end
